theory Spec2Isabelle
  imports Complex_Main "HOL-Library.Monad_Syntax" "HOL-Library.Signed_Division"
begin

section \<open>Magnetic field synthesis of geomag.hpp\<close>

text \<open>
  The header computes in C \<open>float\<close>. The embedding leaves the float type open: it is a
  type variable \<open>'a\<close> that only carries the operation symbols \<open>+\<close>, \<open>-\<close>, \<open>*\<close>, \<open>/\<close>,
  unary minus, \<open>0\<close> and \<open>1\<close> (the syntactic classes, which assume no law), so a theorem
  proved at this generality holds for every rounding behaviour, for infinities and for
  NaN. What the operation symbols do not cover is supplied by a record: the conversion
  of an \<open>int\<close> to \<open>float\<close>, \<open>sqrtf\<close>, and the literals \<open>0.5f\<close>, \<open>1.0E-9f\<close> and \<open>EARTH_R\<close>.
  The instance \<open>real_env\<close> reads \<open>float\<close> as the real numbers, without rounding; the
  instance \<open>ieee_env\<close> adds the infinities and NaN to them.

  C \<open>int\<close> is modelled by \<open>int\<close>: the degree and the order stay within \<open>0 .. NMAX + 1\<close>
  inside \<open>GeoMag\<close>, so no index expression comes near the 32-bit range. Integer division
  is C's truncating division, \<open>sdiv\<close>.
\<close>

subsection \<open>Constants and the float environment\<close>

definition NMAX :: int where
  "NMAX = 12"

definition NUMCOF :: int where
  "NUMCOF = (NMAX + 1) * (NMAX + 2) sdiv 2"

record 'a fenv =
  to_float :: "int \<Rightarrow> 'a"
  sqrtf :: "'a \<Rightarrow> 'a"
  lit_half :: 'a
  lit_nano :: 'a
  EARTH_R :: 'a

definition real_env :: "real fenv" where
  "real_env = \<lparr>to_float = real_of_int, sqrtf = sqrt, lit_half = 1 / 2,
     lit_nano = 1 / 10 ^ 9, EARTH_R = 6371200\<rparr>"

subsection \<open>The coefficient store\<close>

record 'a ConstModel =
  epoch :: 'a
  Main_Field_Coeff_C :: "'a list"
  Main_Field_Coeff_S :: "'a list"
  Secular_Var_Coeff_C :: "'a list"
  Secular_Var_Coeff_S :: "'a list"

text \<open>The four members are declared \<open>float[NUMCOF]\<close>: every store has tables of that length.\<close>

definition wf_model :: "'a ConstModel \<Rightarrow> bool" where
  "wf_model WMM \<longleftrightarrow>
     int (length (Main_Field_Coeff_C WMM)) = NUMCOF \<and>
     int (length (Main_Field_Coeff_S WMM)) = NUMCOF \<and>
     int (length (Secular_Var_Coeff_C WMM)) = NUMCOF \<and>
     int (length (Secular_Var_Coeff_S WMM)) = NUMCOF"

definition index :: "int \<Rightarrow> int \<Rightarrow> int" where
  "index n m = (m * (2 * NMAX - m + 1)) sdiv 2 + n"

text \<open>
  An array read \<open>arr[i]\<close>. Reading outside the array is undefined behaviour in C; the
  model makes it the value \<open>None\<close>, which every caller passes on.
\<close>

definition read_at :: "'a list \<Rightarrow> int \<Rightarrow> 'a option" where
  "read_at arr i = (if 0 \<le> i \<and> i < int (length arr) then Some (arr ! nat i) else None)"

text \<open>
  \<open>ConstModel::C\<close> and \<open>ConstModel::S\<close>. Under \<open>PROGMEM\<close> the same two entries are read with
  \<open>pgm_read_float_near\<close> and combined by the same expression.
\<close>

definition C :: "('a::{plus,minus,times}) ConstModel \<Rightarrow> int \<Rightarrow> int \<Rightarrow> 'a \<Rightarrow> 'a option" where
  "C WMM n m dyear = do {
     mf \<leftarrow> read_at (Main_Field_Coeff_C WMM) (index n m);
     sv \<leftarrow> read_at (Secular_Var_Coeff_C WMM) (index n m);
     Some (mf + (dyear - epoch WMM) * sv)
   }"

definition S :: "('a::{plus,minus,times}) ConstModel \<Rightarrow> int \<Rightarrow> int \<Rightarrow> 'a \<Rightarrow> 'a option" where
  "S WMM n m dyear = do {
     mf \<leftarrow> read_at (Main_Field_Coeff_S WMM) (index n m);
     sv \<leftarrow> read_at (Secular_Var_Coeff_S WMM) (index n m);
     Some (mf + (dyear - epoch WMM) * sv)
   }"

subsection \<open>GeoMag\<close>

record 'a Vector =
  x :: 'a
  y :: 'a
  z :: 'a

text \<open>
  The scalars that \<open>GeoMag\<close> carries from one loop iteration to the next. \<open>temp\<close> and
  \<open>invs_temp\<close> are written before each read inside the loop body and are let-bound there.
\<close>

record 'a locals =
  px :: 'a
  py :: 'a
  pz :: 'a
  Vtop :: 'a
  Wtop :: 'a
  Vprev :: 'a
  Wprev :: 'a
  Vnm :: 'a
  Wnm :: 'a

text \<open>Lines 118 to 137: the update of the V and W scalars at the pair \<open>(n, m)\<close>.\<close>

definition recur_step ::
  "('a::{zero,one,plus,minus,uminus,times,inverse}) fenv \<Rightarrow> 'a \<Rightarrow> 'a \<Rightarrow> 'a \<Rightarrow> 'a \<Rightarrow>
     int \<Rightarrow> int \<Rightarrow> 'a locals \<Rightarrow> 'a locals" where
  "recur_step E a b f g n m st =
     (if n = m then
        (if m \<noteq> 0 then
           (let temp = Vtop st;
                st = st\<lparr>Vtop := to_float E (2 * m - 1) * (a * Vtop st - b * Wtop st)\<rparr>;
                st = st\<lparr>Wtop := to_float E (2 * m - 1) * (a * Wtop st + b * temp)\<rparr>;
                st = st\<lparr>Vprev := 0\<rparr>;
                st = st\<lparr>Wprev := 0\<rparr>;
                st = st\<lparr>Vnm := Vtop st\<rparr>;
                st = st\<lparr>Wnm := Wtop st\<rparr>
            in st)
         else st)
      else
        (let temp = Vnm st;
             invs_temp = 1 / to_float E (n - m);
             st = st\<lparr>Vnm := (to_float E (2 * n - 1) * f * Vnm st
                              - to_float E (n + m - 1) * g * Vprev st) * invs_temp\<rparr>;
             st = st\<lparr>Vprev := temp\<rparr>;
             temp = Wnm st;
             st = st\<lparr>Wnm := (to_float E (2 * n - 1) * f * Wnm st
                              - to_float E (n + m - 1) * g * Wprev st) * invs_temp\<rparr>;
             st = st\<lparr>Wprev := temp\<rparr>
         in st))"

text \<open>Lines 138 to 152: the four guarded accumulations, each statement with its own lookups.\<close>

definition accumulate ::
  "('a::{zero,one,plus,minus,uminus,times,inverse}) fenv \<Rightarrow> 'a \<Rightarrow> 'a ConstModel \<Rightarrow>
     int \<Rightarrow> int \<Rightarrow> 'a locals \<Rightarrow> 'a locals option" where
  "accumulate E dyear WMM n m st = do {
     st \<leftarrow> (if m < NMAX \<and> n \<ge> m + 2 then do {
              c \<leftarrow> C WMM (n - 1) (m + 1) dyear;
              s \<leftarrow> S WMM (n - 1) (m + 1) dyear;
              let st = st\<lparr>px := px st + lit_half E * to_float E (n - m) * to_float E (n - m - 1)
                                          * (c * Vnm st + s * Wnm st)\<rparr>;
              c \<leftarrow> C WMM (n - 1) (m + 1) dyear;
              s \<leftarrow> S WMM (n - 1) (m + 1) dyear;
              Some (st\<lparr>py := py st + lit_half E * to_float E (n - m) * to_float E (n - m - 1)
                                          * (- c * Wnm st + s * Vnm st)\<rparr>)
            } else Some st);
     st \<leftarrow> (if n \<ge> 2 \<and> m \<ge> 2 then do {
              c \<leftarrow> C WMM (n - 1) (m - 1) dyear;
              s \<leftarrow> S WMM (n - 1) (m - 1) dyear;
              let st = st\<lparr>px := px st + lit_half E * (- c * Vnm st - s * Wnm st)\<rparr>;
              c \<leftarrow> C WMM (n - 1) (m - 1) dyear;
              s \<leftarrow> S WMM (n - 1) (m - 1) dyear;
              Some (st\<lparr>py := py st + lit_half E * (- c * Wnm st + s * Vnm st)\<rparr>)
            } else Some st);
     st \<leftarrow> (if m = 1 \<and> n \<ge> 2 then do {
              c \<leftarrow> C WMM (n - 1) 0 dyear;
              let st = st\<lparr>px := px st + - c * Vnm st\<rparr>;
              c \<leftarrow> C WMM (n - 1) 0 dyear;
              Some (st\<lparr>py := py st + - c * Wnm st\<rparr>)
            } else Some st);
     (if n \<ge> 2 \<and> n > m then do {
        c \<leftarrow> C WMM (n - 1) m dyear;
        s \<leftarrow> S WMM (n - 1) m dyear;
        Some (st\<lparr>pz := pz st + to_float E (n - m) * (- c * Vnm st - s * Wnm st)\<rparr>)
      } else Some st)
   }"

text \<open>The body of the inner loop, lines 117 to 153.\<close>

definition GeoMag_body ::
  "('a::{zero,one,plus,minus,uminus,times,inverse}) fenv \<Rightarrow> 'a \<Rightarrow> 'a ConstModel \<Rightarrow>
     'a \<Rightarrow> 'a \<Rightarrow> 'a \<Rightarrow> 'a \<Rightarrow> int \<Rightarrow> int \<Rightarrow> 'a locals \<Rightarrow> 'a locals option" where
  "GeoMag_body E dyear WMM a b f g n m st =
     accumulate E dyear WMM n m (recur_step E a b f g n m st)"

text \<open>
  The two \<open>for\<close> statements, over any body: \<open>for (n = m; n <= NMAX+1; n++)\<close> and
  \<open>for (m = 0; m <= NMAX+1; m++)\<close>. A body that fails ends the run.
\<close>

function for_n :: "(int \<Rightarrow> int \<Rightarrow> 's \<Rightarrow> 's option) \<Rightarrow> int \<Rightarrow> int \<Rightarrow> 's \<Rightarrow> 's option" where
  "for_n body m n st =
     (if n \<le> NMAX + 1 then
        (case body n m st of None \<Rightarrow> None | Some st' \<Rightarrow> for_n body m (n + 1) st')
      else Some st)"
  by pat_completeness auto
termination
  by (relation "measure (\<lambda>(body, m, n, st). nat (NMAX + 2 - n))") auto

function for_m :: "(int \<Rightarrow> int \<Rightarrow> 's \<Rightarrow> 's option) \<Rightarrow> int \<Rightarrow> 's \<Rightarrow> 's option" where
  "for_m body m st =
     (if m \<le> NMAX + 1 then
        (case for_n body m m st of None \<Rightarrow> None | Some st' \<Rightarrow> for_m body (m + 1) st')
      else Some st)"
  by pat_completeness auto
termination
  by (relation "measure (\<lambda>(body, m, st). nat (NMAX + 2 - m))") auto

text \<open>Lines 90 to 110: the scaled position \<open>(a, b, f, g)\<close> and the scalars before the loops.\<close>

definition GeoMag_init ::
  "('a::{zero,one,plus,minus,uminus,times,inverse}) fenv \<Rightarrow> 'a Vector \<Rightarrow>
     ('a \<times> 'a \<times> 'a \<times> 'a) \<times> 'a locals" where
  "GeoMag_init E position_itrs =
     (let x = x position_itrs;
          y = y position_itrs;
          z = z position_itrs;
          px = 0;
          py = 0;
          pz = 0;
          rsqrd = x * x + y * y + z * z;
          temp = EARTH_R E / rsqrd;
          a = x * temp;
          b = y * temp;
          f = z * temp;
          g = EARTH_R E * temp;
          Vtop = EARTH_R E / sqrtf E rsqrd;
          Wtop = 0;
          Vprev = 0;
          Wprev = 0;
          Vnm = Vtop;
          Wnm = Wtop
      in ((a, b, f, g),
          \<lparr>px = px, py = py, pz = pz, Vtop = Vtop, Wtop = Wtop,
           Vprev = Vprev, Wprev = Wprev, Vnm = Vnm, Wnm = Wnm\<rparr>))"

definition GeoMag ::
  "('a::{zero,one,plus,minus,uminus,times,inverse}) fenv \<Rightarrow> 'a \<Rightarrow> 'a Vector \<Rightarrow>
     'a ConstModel \<Rightarrow> 'a Vector option" where
  "GeoMag E dyear position_itrs WMM =
     (case GeoMag_init E position_itrs of
        ((a, b, f, g), st0) \<Rightarrow>
          (case for_m (GeoMag_body E dyear WMM a b f g) 0 st0 of
             None \<Rightarrow> None
           | Some st \<Rightarrow>
               Some \<lparr>x = - px st * lit_nano E, y = - py st * lit_nano E,
                     z = - pz st * lit_nano E\<rparr>))"


declare for_n.simps [simp del] for_m.simps [simp del]

subsection \<open>The traversal and the contribution rules\<close>

text \<open>The pairs \<open>(n, m)\<close> in the order in which the two loops visit them.\<close>

definition traversal :: "(int \<times> int) list" where
  "traversal = concat (map (\<lambda>m. map (\<lambda>n. (n, m)) [m..NMAX + 1]) [0..NMAX + 1])"

text \<open>The part of the traversal up to and including the pair \<open>(n, m)\<close>.\<close>

definition upto_pair :: "int \<Rightarrow> int \<Rightarrow> (int \<times> int) list" where
  "upto_pair n m =
     concat (map (\<lambda>m'. map (\<lambda>n'. (n', m')) [m'..NMAX + 1]) [0..m - 1]) @ map (\<lambda>n'. (n', m)) [m..n]"

text \<open>
  A loop body together with a record of what it did: after each execution of the body
  the observation \<open>obs n m st'\<close> of the new state is appended to a trace. The trace is
  not a program variable; it makes the sequence of iterations a value one can state
  theorems about. Forgetting the trace gives back the run of the body alone (lemmas
  \<open>for_n_untraced\<close> and \<open>for_m_untraced\<close>).
\<close>

definition traced ::
  "(int \<Rightarrow> int \<Rightarrow> 's \<Rightarrow> 'r) \<Rightarrow> (int \<Rightarrow> int \<Rightarrow> 's \<Rightarrow> 's option) \<Rightarrow>
     int \<Rightarrow> int \<Rightarrow> 's \<times> 'r list \<Rightarrow> ('s \<times> 'r list) option" where
  "traced obs body n m = (\<lambda>(st, tr).
     case body n m st of None \<Rightarrow> None | Some st' \<Rightarrow> Some (st', tr @ [obs n m st']))"

text \<open>
  A run of \<open>GeoMag\<close> with a traced body: the observations of the locals after each
  iteration of the two loops, in order, or \<open>None\<close> when a lookup failed. \<open>GeoMag\<close> itself
  is this run with the trace forgotten (lemma \<open>GeoMag_of_traced_run\<close>).
\<close>

definition GeoMag_trace ::
  "(int \<Rightarrow> int \<Rightarrow> 'a locals \<Rightarrow> 'r) \<Rightarrow> ('a::{zero,one,plus,minus,uminus,times,inverse}) fenv \<Rightarrow>
     'a \<Rightarrow> 'a Vector \<Rightarrow> 'a ConstModel \<Rightarrow> 'r list option" where
  "GeoMag_trace obs E dyear position_itrs WMM =
     (case GeoMag_init E position_itrs of
        ((a, b, f, g), st0) \<Rightarrow>
          map_option snd (for_m (traced obs (GeoMag_body E dyear WMM a b f g)) 0 (st0, [])))"

text \<open>The valid packing domain of the tables, and the time-corrected coefficient in it.\<close>

definition in_domain :: "int \<Rightarrow> int \<Rightarrow> bool" where
  "in_domain n m \<longleftrightarrow> 0 \<le> m \<and> m \<le> n \<and> n \<le> NMAX"

definition valueC :: "('a::{plus,minus,times}) ConstModel \<Rightarrow> int \<Rightarrow> int \<Rightarrow> 'a \<Rightarrow> 'a" where
  "valueC WMM n m t =
     Main_Field_Coeff_C WMM ! nat (index n m)
       + (t - epoch WMM) * Secular_Var_Coeff_C WMM ! nat (index n m)"

definition valueS :: "('a::{plus,minus,times}) ConstModel \<Rightarrow> int \<Rightarrow> int \<Rightarrow> 'a \<Rightarrow> 'a" where
  "valueS WMM n m t =
     Main_Field_Coeff_S WMM ! nat (index n m)
       + (t - epoch WMM) * Secular_Var_Coeff_S WMM ! nat (index n m)"

text \<open>The guards of the four \<open>if\<close> statements of lines 138, 142, 146 and 150.\<close>

definition raise_guard :: "int \<Rightarrow> int \<Rightarrow> bool" where
  "raise_guard n m \<longleftrightarrow> m < NMAX \<and> n \<ge> m + 2"

definition lower_guard :: "int \<Rightarrow> int \<Rightarrow> bool" where
  "lower_guard n m \<longleftrightarrow> n \<ge> 2 \<and> m \<ge> 2"

definition order1_guard :: "int \<Rightarrow> int \<Rightarrow> bool" where
  "order1_guard n m \<longleftrightarrow> m = 1 \<and> n \<ge> 2"

definition vertical_guard :: "int \<Rightarrow> int \<Rightarrow> bool" where
  "vertical_guard n m \<longleftrightarrow> n \<ge> 2 \<and> n > m"

definition guards_holding :: "int \<Rightarrow> int \<Rightarrow> nat" where
  "guards_holding n m =
     length (filter (\<lambda>h. h) [raise_guard n m, lower_guard n m, order1_guard n m, vertical_guard n m])"

text \<open>
  What the rules add to \<open>px\<close>, \<open>py\<close> and \<open>pz\<close> at the pair \<open>(n, m)\<close>, in the order of the
  statements, given the values \<open>v\<close> and \<open>w\<close> of \<open>Vnm\<close> and \<open>Wnm\<close> there.
\<close>

definition px_terms ::
  "('a::{zero,one,plus,minus,uminus,times,inverse}) fenv \<Rightarrow> 'a \<Rightarrow> 'a ConstModel \<Rightarrow>
     int \<Rightarrow> int \<Rightarrow> 'a \<Rightarrow> 'a \<Rightarrow> 'a list" where
  "px_terms E t WMM n m v w =
     (if raise_guard n m
      then [lit_half E * to_float E (n - m) * to_float E (n - m - 1)
              * (valueC WMM (n - 1) (m + 1) t * v + valueS WMM (n - 1) (m + 1) t * w)]
      else []) @
     (if lower_guard n m
      then [lit_half E * (- valueC WMM (n - 1) (m - 1) t * v - valueS WMM (n - 1) (m - 1) t * w)]
      else []) @
     (if order1_guard n m then [- valueC WMM (n - 1) 0 t * v] else [])"

definition py_terms ::
  "('a::{zero,one,plus,minus,uminus,times,inverse}) fenv \<Rightarrow> 'a \<Rightarrow> 'a ConstModel \<Rightarrow>
     int \<Rightarrow> int \<Rightarrow> 'a \<Rightarrow> 'a \<Rightarrow> 'a list" where
  "py_terms E t WMM n m v w =
     (if raise_guard n m
      then [lit_half E * to_float E (n - m) * to_float E (n - m - 1)
              * (- valueC WMM (n - 1) (m + 1) t * w + valueS WMM (n - 1) (m + 1) t * v)]
      else []) @
     (if lower_guard n m
      then [lit_half E * (- valueC WMM (n - 1) (m - 1) t * w + valueS WMM (n - 1) (m - 1) t * v)]
      else []) @
     (if order1_guard n m then [- valueC WMM (n - 1) 0 t * w] else [])"

definition pz_terms ::
  "('a::{zero,one,plus,minus,uminus,times,inverse}) fenv \<Rightarrow> 'a \<Rightarrow> 'a ConstModel \<Rightarrow>
     int \<Rightarrow> int \<Rightarrow> 'a \<Rightarrow> 'a \<Rightarrow> 'a list" where
  "pz_terms E t WMM n m v w =
     (if vertical_guard n m
      then [to_float E (n - m) * (- valueC WMM (n - 1) m t * v - valueS WMM (n - 1) m t * w)]
      else [])"

text \<open>The sum of a list in its order, starting from \<open>0\<close>, as \<open>px += ...\<close> builds it.\<close>

definition sum_in_order :: "('a::{zero,plus}) list \<Rightarrow> 'a" where
  "sum_in_order ts = foldl (+) 0 ts"

subsection \<open>The full table of V and W\<close>

text \<open>
  The recurrence as a function of the pair \<open>(n, m)\<close>, with the operations in the order in
  which the code applies them: the diagonal entry from the previous diagonal entry, every
  other entry from the two entries above it in the same order, and \<open>0\<close> outside the
  triangle (the code's \<open>Vprev = 0\<close> when a new order starts).
\<close>

function V_table ::
  "('a::{zero,one,plus,minus,uminus,times,inverse}) fenv \<Rightarrow> 'a \<Rightarrow> 'a \<Rightarrow> 'a \<Rightarrow> 'a \<Rightarrow> 'a \<Rightarrow>
     int \<Rightarrow> int \<Rightarrow> 'a"
  and W_table :: "'a fenv \<Rightarrow> 'a \<Rightarrow> 'a \<Rightarrow> 'a \<Rightarrow> 'a \<Rightarrow> 'a \<Rightarrow> int \<Rightarrow> int \<Rightarrow> 'a" where
  "V_table E a b f g v00 n m =
     (if m < 0 \<or> n < m then 0
      else if n = m then
        (if m = 0 then v00
         else to_float E (2 * m - 1)
                * (a * V_table E a b f g v00 (m - 1) (m - 1)
                    - b * W_table E a b f g v00 (m - 1) (m - 1)))
      else (to_float E (2 * n - 1) * f * V_table E a b f g v00 (n - 1) m
              - to_float E (n + m - 1) * g * V_table E a b f g v00 (n - 2) m)
             * (1 / to_float E (n - m)))"
| "W_table E a b f g v00 n m =
     (if m < 0 \<or> n < m then 0
      else if n = m then
        (if m = 0 then 0
         else to_float E (2 * m - 1)
                * (a * W_table E a b f g v00 (m - 1) (m - 1)
                    + b * V_table E a b f g v00 (m - 1) (m - 1)))
      else (to_float E (2 * n - 1) * f * W_table E a b f g v00 (n - 1) m
              - to_float E (n + m - 1) * g * W_table E a b f g v00 (n - 2) m)
             * (1 / to_float E (n - m)))"
  by pat_completeness auto
termination
  by (relation "measure (\<lambda>t. case t of Inl (E, a, b, f, g, v00, n, m) \<Rightarrow> nat (n + m)
                                     | Inr (E, a, b, f, g, v00, n, m) \<Rightarrow> nat (n + m))") auto

declare V_table.simps [simp del] W_table.simps [simp del]

text \<open>The table at a position: the scaled position and the seed are those of \<open>GeoMag_init\<close>.\<close>

definition V_at ::
  "('a::{zero,one,plus,minus,uminus,times,inverse}) fenv \<Rightarrow> 'a Vector \<Rightarrow> int \<Rightarrow> int \<Rightarrow> 'a" where
  "V_at E p n m =
     (case GeoMag_init E p of ((a, b, f, g), st0) \<Rightarrow> V_table E a b f g (Vtop st0) n m)"

definition W_at ::
  "('a::{zero,one,plus,minus,uminus,times,inverse}) fenv \<Rightarrow> 'a Vector \<Rightarrow> int \<Rightarrow> int \<Rightarrow> 'a" where
  "W_at E p n m =
     (case GeoMag_init E p of ((a, b, f, g), st0) \<Rightarrow> W_table E a b f g (Vtop st0) n m)"

text \<open>The three accumulated sums over the whole traversal.\<close>

definition grad_x ::
  "('a::{zero,one,plus,minus,uminus,times,inverse}) fenv \<Rightarrow> 'a \<Rightarrow> 'a Vector \<Rightarrow>
     'a ConstModel \<Rightarrow> 'a" where
  "grad_x E t p WMM = sum_in_order (concat (map
     (\<lambda>(n, m). px_terms E t WMM n m (V_at E p n m) (W_at E p n m)) traversal))"

definition grad_y ::
  "('a::{zero,one,plus,minus,uminus,times,inverse}) fenv \<Rightarrow> 'a \<Rightarrow> 'a Vector \<Rightarrow>
     'a ConstModel \<Rightarrow> 'a" where
  "grad_y E t p WMM = sum_in_order (concat (map
     (\<lambda>(n, m). py_terms E t WMM n m (V_at E p n m) (W_at E p n m)) traversal))"

definition grad_z ::
  "('a::{zero,one,plus,minus,uminus,times,inverse}) fenv \<Rightarrow> 'a \<Rightarrow> 'a Vector \<Rightarrow>
     'a ConstModel \<Rightarrow> 'a" where
  "grad_z E t p WMM = sum_in_order (concat (map
     (\<lambda>(n, m). pz_terms E t WMM n m (V_at E p n m) (W_at E p n m)) traversal))"

text \<open>
  The locals after the iteration at \<open>(n, m)\<close>, written with the table and with the sums
  over the traversal so far.
\<close>

definition expect ::
  "('a::{zero,one,plus,minus,uminus,times,inverse}) fenv \<Rightarrow> 'a \<Rightarrow> 'a ConstModel \<Rightarrow>
     'a \<Rightarrow> 'a \<Rightarrow> 'a \<Rightarrow> 'a \<Rightarrow> 'a \<Rightarrow> int \<Rightarrow> int \<Rightarrow> 'a locals" where
  "expect E t WMM a b f g v00 n m =
     \<lparr>px = sum_in_order (concat (map (\<lambda>(n', m'). px_terms E t WMM n' m'
               (V_table E a b f g v00 n' m') (W_table E a b f g v00 n' m')) (upto_pair n m))),
      py = sum_in_order (concat (map (\<lambda>(n', m'). py_terms E t WMM n' m'
               (V_table E a b f g v00 n' m') (W_table E a b f g v00 n' m')) (upto_pair n m))),
      pz = sum_in_order (concat (map (\<lambda>(n', m'). pz_terms E t WMM n' m'
               (V_table E a b f g v00 n' m') (W_table E a b f g v00 n' m')) (upto_pair n m))),
      Vtop = V_table E a b f g v00 m m,
      Wtop = W_table E a b f g v00 m m,
      Vprev = V_table E a b f g v00 (n - 1) m,
      Wprev = W_table E a b f g v00 (n - 1) m,
      Vnm = V_table E a b f g v00 n m,
      Wnm = W_table E a b f g v00 n m\<rparr>"

subsection \<open>The recurrence in the words of the specification\<close>

text \<open>
  Over the real numbers: \<open>a = x R / r\<^sup>2\<close>, \<open>b = y R / r\<^sup>2\<close>, \<open>f = z R / r\<^sup>2\<close>,
  \<open>g = R\<^sup>2 / r\<^sup>2\<close>, the seed \<open>V(0,0) = R / sqrt (r\<^sup>2)\<close>, \<open>W(0,0) = 0\<close>, the diagonal step
  and the vertical step with its division by \<open>n - m\<close>. The vertical step at \<open>n = m + 1\<close>
  refers to the entry \<open>(m - 1, m)\<close> outside the triangle, which is \<open>0\<close>.
\<close>

definition spec_R :: real where
  "spec_R = 6371200"

definition spec_rsq :: "real Vector \<Rightarrow> real" where
  "spec_rsq p = (x p)\<^sup>2 + (y p)\<^sup>2 + (z p)\<^sup>2"

definition spec_a :: "real Vector \<Rightarrow> real" where
  "spec_a p = x p * spec_R / spec_rsq p"

definition spec_b :: "real Vector \<Rightarrow> real" where
  "spec_b p = y p * spec_R / spec_rsq p"

definition spec_f :: "real Vector \<Rightarrow> real" where
  "spec_f p = z p * spec_R / spec_rsq p"

definition spec_g :: "real Vector \<Rightarrow> real" where
  "spec_g p = spec_R\<^sup>2 / spec_rsq p"

function V_spec :: "real Vector \<Rightarrow> int \<Rightarrow> int \<Rightarrow> real"
  and W_spec :: "real Vector \<Rightarrow> int \<Rightarrow> int \<Rightarrow> real" where
  "V_spec p n m =
     (if m < 0 \<or> n < m then 0
      else if n = m then
        (if m = 0 then spec_R / sqrt (spec_rsq p)
         else real_of_int (2 * m - 1)
                * (spec_a p * V_spec p (m - 1) (m - 1) - spec_b p * W_spec p (m - 1) (m - 1)))
      else (real_of_int (2 * n - 1) * spec_f p * V_spec p (n - 1) m
              - real_of_int (n + m - 1) * spec_g p * V_spec p (n - 2) m)
             / real_of_int (n - m))"
| "W_spec p n m =
     (if m < 0 \<or> n < m then 0
      else if n = m then
        (if m = 0 then 0
         else real_of_int (2 * m - 1)
                * (spec_a p * W_spec p (m - 1) (m - 1) + spec_b p * V_spec p (m - 1) (m - 1)))
      else (real_of_int (2 * n - 1) * spec_f p * W_spec p (n - 1) m
              - real_of_int (n + m - 1) * spec_g p * W_spec p (n - 2) m)
             / real_of_int (n - m))"
  by pat_completeness auto
termination
  by (relation "measure (\<lambda>t. case t of Inl (p, n, m) \<Rightarrow> nat (n + m)
                                     | Inr (p, n, m) \<Rightarrow> nat (n + m))") auto

declare V_spec.simps [simp del] W_spec.simps [simp del]

subsection \<open>Stores that are compared, and a concrete store\<close>


text \<open>Two stores with the same epoch whose tables agree at every index but \<open>0\<close>.\<close>

definition agree_off_origin :: "'a ConstModel \<Rightarrow> 'a ConstModel \<Rightarrow> bool" where
  "agree_off_origin WMM WMM' \<longleftrightarrow>
     epoch WMM = epoch WMM' \<and>
     (\<forall>i. 0 < i \<and> int i < NUMCOF \<longrightarrow>
        Main_Field_Coeff_C WMM ! i = Main_Field_Coeff_C WMM' ! i \<and>
        Main_Field_Coeff_S WMM ! i = Main_Field_Coeff_S WMM' ! i \<and>
        Secular_Var_Coeff_C WMM ! i = Secular_Var_Coeff_C WMM' ! i \<and>
        Secular_Var_Coeff_S WMM ! i = Secular_Var_Coeff_S WMM' ! i)"

text \<open>
  The degree-1 part of the \<open>WMM2020\<close> tables of the header (indices 1 and 13; every other
  entry zero), and a point on the reference sphere above the pole.
\<close>

definition dipole_model :: "real ConstModel" where
  "dipole_model =
     \<lparr>epoch = 2020,
      Main_Field_Coeff_C = (replicate 91 0)[1 := - 29404.5, 13 := - 1450.7],
      Main_Field_Coeff_S = (replicate 91 0)[13 := 4652.9],
      Secular_Var_Coeff_C = (replicate 91 0)[1 := 6.7, 13 := 7.7],
      Secular_Var_Coeff_S = (replicate 91 0)[13 := - 25.1]\<rparr>"

definition north_pole :: "real Vector" where
  "north_pole = \<lparr>x = 0, y = 0, z = 6371200\<rparr>"

subsection \<open>An arithmetic with infinities and NaN\<close>

text \<open>
  One instance of the open float type: the finite values are the real numbers (exact, no
  rounding, a single zero), together with \<open>+inf\<close>, \<open>-inf\<close> and NaN under the rules of
  IEEE 754 for them. It evaluates the program where a reading over the real numbers has
  no answer: at an infinite or NaN table entry, and at a division by zero.
\<close>

datatype xfloat = Fin real | PInf | MInf | NaN

fun xneg :: "xfloat \<Rightarrow> xfloat" where
  "xneg (Fin a) = Fin (- a)"
| "xneg PInf = MInf"
| "xneg MInf = PInf"
| "xneg NaN = NaN"

fun xadd :: "xfloat \<Rightarrow> xfloat \<Rightarrow> xfloat" where
  "xadd (Fin a) (Fin b) = Fin (a + b)"
| "xadd NaN _ = NaN"
| "xadd _ NaN = NaN"
| "xadd PInf MInf = NaN"
| "xadd MInf PInf = NaN"
| "xadd PInf _ = PInf"
| "xadd _ PInf = PInf"
| "xadd MInf _ = MInf"
| "xadd _ MInf = MInf"

fun xmul :: "xfloat \<Rightarrow> xfloat \<Rightarrow> xfloat" where
  "xmul (Fin a) (Fin b) = Fin (a * b)"
| "xmul NaN _ = NaN"
| "xmul _ NaN = NaN"
| "xmul (Fin a) PInf = (if a = 0 then NaN else if 0 < a then PInf else MInf)"
| "xmul (Fin a) MInf = (if a = 0 then NaN else if 0 < a then MInf else PInf)"
| "xmul PInf (Fin b) = (if b = 0 then NaN else if 0 < b then PInf else MInf)"
| "xmul MInf (Fin b) = (if b = 0 then NaN else if 0 < b then MInf else PInf)"
| "xmul PInf PInf = PInf"
| "xmul PInf MInf = MInf"
| "xmul MInf PInf = MInf"
| "xmul MInf MInf = PInf"

fun xdiv :: "xfloat \<Rightarrow> xfloat \<Rightarrow> xfloat" where
  "xdiv (Fin a) (Fin b) =
     (if b = 0 then (if a = 0 then NaN else if 0 < a then PInf else MInf) else Fin (a / b))"
| "xdiv NaN _ = NaN"
| "xdiv _ NaN = NaN"
| "xdiv (Fin a) PInf = Fin 0"
| "xdiv (Fin a) MInf = Fin 0"
| "xdiv PInf (Fin b) = (if 0 \<le> b then PInf else MInf)"
| "xdiv MInf (Fin b) = (if 0 \<le> b then MInf else PInf)"
| "xdiv PInf PInf = NaN"
| "xdiv PInf MInf = NaN"
| "xdiv MInf PInf = NaN"
| "xdiv MInf MInf = NaN"

fun xsqrt :: "xfloat \<Rightarrow> xfloat" where
  "xsqrt (Fin a) = (if a < 0 then NaN else Fin (sqrt a))"
| "xsqrt PInf = PInf"
| "xsqrt MInf = NaN"
| "xsqrt NaN = NaN"

instantiation xfloat :: "{zero,one,plus,minus,uminus,times,inverse}"
begin

definition zero_xfloat :: xfloat where
  "zero_xfloat = Fin 0"

definition one_xfloat :: xfloat where
  "one_xfloat = Fin 1"

definition plus_xfloat :: "xfloat \<Rightarrow> xfloat \<Rightarrow> xfloat" where
  "plus_xfloat u v = xadd u v"

definition uminus_xfloat :: "xfloat \<Rightarrow> xfloat" where
  "uminus_xfloat u = xneg u"

definition minus_xfloat :: "xfloat \<Rightarrow> xfloat \<Rightarrow> xfloat" where
  "minus_xfloat u v = xadd u (xneg v)"

definition times_xfloat :: "xfloat \<Rightarrow> xfloat \<Rightarrow> xfloat" where
  "times_xfloat u v = xmul u v"

definition divide_xfloat :: "xfloat \<Rightarrow> xfloat \<Rightarrow> xfloat" where
  "divide_xfloat u v = xdiv u v"

definition inverse_xfloat :: "xfloat \<Rightarrow> xfloat" where
  "inverse_xfloat u = xdiv (Fin 1) u"

instance ..

end

text \<open>
  The environment of that arithmetic, the degree-1 store \<open>dipole_model\<close> in it, the same
  store with one infinite secular-variation entry, and two positions: above the pole on
  the reference sphere, and the origin.
\<close>

definition ieee_env :: "xfloat fenv" where
  "ieee_env = \<lparr>to_float = (\<lambda>k. Fin (real_of_int k)), sqrtf = xsqrt, lit_half = Fin (1 / 2),
     lit_nano = Fin (1 / 10 ^ 9), EARTH_R = Fin 6371200\<rparr>"

definition ieee_dipole :: "xfloat ConstModel" where
  "ieee_dipole =
     \<lparr>epoch = Fin 2020,
      Main_Field_Coeff_C = map Fin ((replicate 91 0)[1 := - 29404.5, 13 := - 1450.7]),
      Main_Field_Coeff_S = map Fin ((replicate 91 0)[13 := 4652.9]),
      Secular_Var_Coeff_C = map Fin ((replicate 91 0)[1 := 6.7, 13 := 7.7]),
      Secular_Var_Coeff_S = map Fin ((replicate 91 0)[13 := - 25.1])\<rparr>"



definition ieee_origin :: "xfloat Vector" where
  "ieee_origin = \<lparr>x = Fin 0, y = Fin 0, z = Fin 0\<rparr>"




section \<open>Facts about the index\<close>

lemma order_cases:
  "0 \<le> m \<Longrightarrow> m \<le> NMAX \<Longrightarrow>
     m = 0 \<or> m = 1 \<or> m = 2 \<or> m = 3 \<or> m = 4 \<or> m = 5 \<or> m = 6 \<or> m = 7 \<or> m = 8 \<or> m = 9
       \<or> m = 10 \<or> m = 11 \<or> m = 12"
  unfolding NMAX_def by arith

lemma sdiv_nonneg: "0 \<le> k \<Longrightarrow> 0 \<le> l \<Longrightarrow> (k::int) sdiv l = k div l"
  by (simp add: signed_divide_int_def sgn_if)

lemma NUMCOF_eq: "NUMCOF = 91"
  by (simp add: NUMCOF_def NMAX_def sdiv_nonneg)

lemma index_bounds:
  assumes "0 \<le> m" "m \<le> n" "n \<le> NMAX"
  shows "0 \<le> index n m \<and> index n m < NUMCOF"
  using order_cases[of m] assms
  by (auto simp: index_def NMAX_def NUMCOF_eq sdiv_nonneg)

lemma index_inj:
  assumes "0 \<le> m" "m \<le> n" "n \<le> NMAX" "0 \<le> m'" "m' \<le> n'" "n' \<le> NMAX"
    and "index n m = index n' m'"
  shows "n = n' \<and> m = m'"
  using order_cases[of m] order_cases[of m'] assms
  by (auto simp: index_def NMAX_def sdiv_nonneg)

lemma index_onto:
  assumes "0 \<le> i" "i < NUMCOF"
  shows "\<exists>n m. 0 \<le> m \<and> m \<le> n \<and> n \<le> NMAX \<and> index n m = i"
proof -
  have r: "i \<le> 12 \<or> (13 \<le> i \<and> i \<le> 24) \<or> (25 \<le> i \<and> i \<le> 35) \<or> (36 \<le> i \<and> i \<le> 45)
      \<or> (46 \<le> i \<and> i \<le> 54) \<or> (55 \<le> i \<and> i \<le> 62) \<or> (63 \<le> i \<and> i \<le> 69)
      \<or> (70 \<le> i \<and> i \<le> 75) \<or> (76 \<le> i \<and> i \<le> 80) \<or> (81 \<le> i \<and> i \<le> 84)
      \<or> (85 \<le> i \<and> i \<le> 87) \<or> (88 \<le> i \<and> i \<le> 89) \<or> i = 90"
    using assms by (simp add: NUMCOF_eq) arith
  have w: "\<exists>n m. 0 \<le> m \<and> m \<le> n \<and> n \<le> NMAX \<and> index n m = i"
    if m: "0 \<le> k" "k \<le> 12" "k \<le> i - k * (25 - k) div 2" "i - k * (25 - k) div 2 \<le> 12"
    for k :: int
  proof -
    have "0 \<le> k * (25 - k)" using m by simp
    then have "index (i - k * (25 - k) div 2) k = i"
      by (simp add: index_def NMAX_def sdiv_nonneg)
    with m show ?thesis
      by (intro exI[of _ "i - k * (25 - k) div 2"] exI[of _ k]) (simp add: NMAX_def)
  qed
  from r show ?thesis
  proof (elim disjE conjE)
    assume "i \<le> 12"
    with assms(1) show ?thesis by (intro w[of 0]) simp_all
  next
    assume "13 \<le> i" "i \<le> 24"
    then show ?thesis by (intro w[of 1]) simp_all
  next
    assume "25 \<le> i" "i \<le> 35"
    then show ?thesis by (intro w[of 2]) simp_all
  next
    assume "36 \<le> i" "i \<le> 45"
    then show ?thesis by (intro w[of 3]) simp_all
  next
    assume "46 \<le> i" "i \<le> 54"
    then show ?thesis by (intro w[of 4]) simp_all
  next
    assume "55 \<le> i" "i \<le> 62"
    then show ?thesis by (intro w[of 5]) simp_all
  next
    assume "63 \<le> i" "i \<le> 69"
    then show ?thesis by (intro w[of 6]) simp_all
  next
    assume "70 \<le> i" "i \<le> 75"
    then show ?thesis by (intro w[of 7]) simp_all
  next
    assume "76 \<le> i" "i \<le> 80"
    then show ?thesis by (intro w[of 8]) simp_all
  next
    assume "81 \<le> i" "i \<le> 84"
    then show ?thesis by (intro w[of 9]) simp_all
  next
    assume "85 \<le> i" "i \<le> 87"
    then show ?thesis by (intro w[of 10]) simp_all
  next
    assume "88 \<le> i" "i \<le> 89"
    then show ?thesis by (intro w[of 11]) simp_all
  next
    assume "i = 90"
    then show ?thesis by (intro w[of 12]) simp_all
  qed
qed

lemma index_positive:
  assumes "0 \<le> m" "m \<le> n" "n \<le> NMAX" "1 \<le> n"
  shows "0 < index n m"
  using order_cases[of m] assms
  by (auto simp: index_def NMAX_def sdiv_nonneg)

section \<open>Facts about the lookups and the loop body\<close>

lemma C_in_domain:
  assumes "wf_model WMM" "0 \<le> m" "m \<le> n" "n \<le> NMAX"
  shows "C WMM n m t = Some (valueC WMM n m t)"
  using index_bounds[OF assms(2-4)] assms(1)
  by (simp add: C_def valueC_def read_at_def wf_model_def)

lemma S_in_domain:
  assumes "wf_model WMM" "0 \<le> m" "m \<le> n" "n \<le> NMAX"
  shows "S WMM n m t = Some (valueS WMM n m t)"
  using index_bounds[OF assms(2-4)] assms(1)
  by (simp add: S_def valueS_def read_at_def wf_model_def)

lemma accumulate_eq:
  assumes "wf_model WMM" "0 \<le> m" "m \<le> n" "n \<le> NMAX + 1"
  shows "accumulate E t WMM n m st =
     Some (st\<lparr>px := foldl (+) (px st) (px_terms E t WMM n m (Vnm st) (Wnm st)),
              py := foldl (+) (py st) (py_terms E t WMM n m (Vnm st) (Wnm st)),
              pz := foldl (+) (pz st) (pz_terms E t WMM n m (Vnm st) (Wnm st))\<rparr>)"
  using assms
  by (simp add: accumulate_def px_terms_def py_terms_def pz_terms_def C_in_domain S_in_domain
      raise_guard_def lower_guard_def order1_guard_def vertical_guard_def)

lemma upto_pair_step: "m \<le> n \<Longrightarrow> upto_pair n m = upto_pair (n - 1) m @ [(n, m)]"
  by (simp add: upto_pair_def upto_rec2[of m n])

lemma upto_pair_diag: "0 < m \<Longrightarrow> upto_pair m m = upto_pair (NMAX + 1) (m - 1) @ [(m, m)]"
  by (simp add: upto_pair_def upto_rec2[of 0 "m - 1"])

lemma upto_pair_origin: "upto_pair 0 0 = [(0, 0)]"
  by (simp add: upto_pair_def)

lemma upto_pair_all: "upto_pair (NMAX + 1) (NMAX + 1) = traversal"
proof -
  have "0 \<le> NMAX + 1" by (simp add: NMAX_def)
  then show ?thesis
    by (simp add: upto_pair_def traversal_def upto_rec2[of 0 "NMAX + 1"])
qed

lemma sum_in_order_snoc:
  "sum_in_order (ts @ us) = foldl (+) (sum_in_order ts) us"
  by (simp add: sum_in_order_def)

lemma body_vertical:
  assumes "wf_model WMM" "0 \<le> m" "m < n" "n \<le> NMAX + 1"
  shows "GeoMag_body E t WMM a b f g n m (expect E t WMM a b f g v00 (n - 1) m)
           = Some (expect E t WMM a b f g v00 n m)"
proof -
  have le: "m \<le> n" using assms by simp
  have ne: "n \<noteq> m" "\<not> (m < 0 \<or> n < m)" using assms by auto
  have V: "V_table E a b f g v00 n m =
      (to_float E (2 * n - 1) * f * V_table E a b f g v00 (n - 1) m
              - to_float E (n + m - 1) * g * V_table E a b f g v00 (n - 2) m)
             * (1 / to_float E (n - m))"
    using ne by (subst V_table.simps) simp
  have W: "W_table E a b f g v00 n m =
      (to_float E (2 * n - 1) * f * W_table E a b f g v00 (n - 1) m
              - to_float E (n + m - 1) * g * W_table E a b f g v00 (n - 2) m)
             * (1 / to_float E (n - m))"
    using ne by (subst W_table.simps) simp
  show ?thesis
    unfolding GeoMag_body_def accumulate_eq[OF assms(1,2) le assms(4)]
    using ne
    by (simp add: recur_step_def expect_def upto_pair_step[OF le] sum_in_order_snoc V W Let_def)
qed

lemma body_diagonal:
  assumes "wf_model WMM" "0 < m" "m \<le> NMAX + 1"
  shows "GeoMag_body E t WMM a b f g m m (expect E t WMM a b f g v00 (NMAX + 1) (m - 1))
           = Some (expect E t WMM a b f g v00 m m)"
proof -
  have m0: "0 \<le> m" "m \<noteq> 0" "\<not> m < 0" using assms by auto
  have V: "V_table E a b f g v00 m m = to_float E (2 * m - 1)
                * (a * V_table E a b f g v00 (m - 1) (m - 1) - b * W_table E a b f g v00 (m - 1) (m - 1))"
    using m0 by (subst V_table.simps) simp
  have W: "W_table E a b f g v00 m m = to_float E (2 * m - 1)
                * (a * W_table E a b f g v00 (m - 1) (m - 1) + b * V_table E a b f g v00 (m - 1) (m - 1))"
    using m0 by (subst W_table.simps) simp
  have V0: "V_table E a b f g v00 (m - 1) m = 0"
    by (subst V_table.simps) simp
  have W0: "W_table E a b f g v00 (m - 1) m = 0"
    by (subst W_table.simps) simp
  show ?thesis
    unfolding GeoMag_body_def accumulate_eq[OF assms(1) m0(1) order_refl assms(3)]
    using m0
    by (simp add: recur_step_def expect_def upto_pair_diag[OF assms(2)] sum_in_order_snoc V W V0 W0 Let_def)
qed

lemma body_origin:
  assumes "wf_model WMM"
  shows "GeoMag_body E t WMM a b f g 0 0
           \<lparr>px = 0, py = 0, pz = 0, Vtop = v00, Wtop = 0, Vprev = 0, Wprev = 0, Vnm = v00, Wnm = 0\<rparr>
           = Some (expect E t WMM a b f g v00 0 0)"
proof -
  have V: "V_table E a b f g v00 0 0 = v00" by (subst V_table.simps) simp
  have W: "W_table E a b f g v00 0 0 = 0" by (subst W_table.simps) simp
  have V0: "V_table E a b f g v00 (- 1) 0 = 0"
    by (subst V_table.simps) simp
  have W0: "W_table E a b f g v00 (- 1) 0 = 0"
    by (subst W_table.simps) simp
  have N: "0 \<le> NMAX + 1" by (simp add: NMAX_def)
  show ?thesis
    unfolding GeoMag_body_def accumulate_eq[OF assms order_refl order_refl N]
    by (simp add: recur_step_def expect_def upto_pair_origin sum_in_order_def V W V0 W0
        px_terms_def py_terms_def pz_terms_def raise_guard_def lower_guard_def order1_guard_def
        vertical_guard_def NMAX_def)
qed

section \<open>Facts about the loops\<close>

lemma for_n_done: "NMAX + 1 < n \<Longrightarrow> for_n body m n st = Some st"
  by (subst for_n.simps) simp

lemma for_n_unfold:
  "n \<le> NMAX + 1 \<Longrightarrow> body n m st = Some st' \<Longrightarrow> for_n body m n st = for_n body m (n + 1) st'"
  by (subst for_n.simps) simp

lemma for_n_fail:
  "n \<le> NMAX + 1 \<Longrightarrow> body n m st = None \<Longrightarrow> for_n body m n st = None"
  by (subst for_n.simps) simp

lemma for_m_done: "NMAX + 1 < m \<Longrightarrow> for_m body m st = Some st"
  by (subst for_m.simps) simp

lemma for_m_unfold:
  "m \<le> NMAX + 1 \<Longrightarrow> for_n body m m st = Some st' \<Longrightarrow> for_m body m st = for_m body (m + 1) st'"
  by (subst for_m.simps) simp

lemma for_m_fail:
  "m \<le> NMAX + 1 \<Longrightarrow> for_n body m m st = None \<Longrightarrow> for_m body m st = None"
  by (subst for_m.simps) simp

lemma traced_Some:
  "body n m st = Some st' \<Longrightarrow> traced obs body n m (st, tr) = Some (st', tr @ [obs n m st'])"
  by (simp add: traced_def)

lemma traced_None: "body n m st = None \<Longrightarrow> traced obs body n m (st, tr) = None"
  by (simp add: traced_def)

lemma for_n_chain:
  fixes e :: "int \<Rightarrow> 's"
  assumes step: "\<And>k. n0 \<le> k \<Longrightarrow> k \<le> NMAX + 1 \<Longrightarrow> body k m (e (k - 1)) = Some (e k)"
  shows "n0 \<le> n \<Longrightarrow> n \<le> NMAX + 2 \<Longrightarrow>
     for_n (traced obs body) m n (e (n - 1), tr)
       = Some (e (NMAX + 1), tr @ map (\<lambda>k. obs k m (e k)) [n..NMAX + 1])"
proof (induction "nat (NMAX + 2 - n)" arbitrary: n tr)
  case 0
  then have "n = NMAX + 2" by simp
  then show ?case by (simp add: for_n_done add.commute)
next
  case (Suc j)
  then have n: "n \<le> NMAX + 1" by simp
  have b: "traced obs body n m (e (n - 1), tr) = Some (e n, tr @ [obs n m (e n)])"
    using step[OF Suc.prems(1) n] by (rule traced_Some[of body n m])
  have j: "j = nat (NMAX + 2 - (n + 1))" using Suc.hyps(2) by simp
  have "for_n (traced obs body) m (n + 1) (e (n + 1 - 1), tr @ [obs n m (e n)])
      = Some (e (NMAX + 1), (tr @ [obs n m (e n)]) @ map (\<lambda>k. obs k m (e k)) [n + 1..NMAX + 1])"
    using Suc.prems n by (intro Suc.hyps(1)[OF j]) simp_all
  then show ?case
    using n by (simp add: for_n_unfold[of n "traced obs body" m, OF n b] upto_rec1[of n "NMAX + 1"])
qed

lemma for_n_row:
  fixes e :: "int \<Rightarrow> 's"
  assumes first: "body m m pre = Some (e m)"
    and step: "\<And>k. m + 1 \<le> k \<Longrightarrow> k \<le> NMAX + 1 \<Longrightarrow> body k m (e (k - 1)) = Some (e k)"
    and m: "m \<le> NMAX + 1"
  shows "for_n (traced obs body) m m (pre, tr)
       = Some (e (NMAX + 1), tr @ map (\<lambda>k. obs k m (e k)) [m..NMAX + 1])"
proof -
  have "for_n (traced obs body) m (m + 1) (e (m + 1 - 1), tr @ [obs m m (e m)])
      = Some (e (NMAX + 1), (tr @ [obs m m (e m)]) @ map (\<lambda>k. obs k m (e k)) [m + 1..NMAX + 1])"
    using m by (intro for_n_chain[where ?n0.0 = "m + 1"] step) simp_all
  then show ?thesis
    using m by (simp add: for_n_unfold[of m "traced obs body" m, OF m traced_Some[of body m m, OF first]] upto_rec1[of m "NMAX + 1"])
qed

lemma for_m_chain:
  fixes e :: "int \<Rightarrow> int \<Rightarrow> 's"
  assumes diag: "\<And>k. m0 \<le> k \<Longrightarrow> k \<le> NMAX + 1 \<Longrightarrow> body k k (e (NMAX + 1) (k - 1)) = Some (e k k)"
    and vert: "\<And>n k. m0 \<le> k \<Longrightarrow> k < n \<Longrightarrow> n \<le> NMAX + 1 \<Longrightarrow> body n k (e (n - 1) k) = Some (e n k)"
  shows "m0 \<le> m \<Longrightarrow> m \<le> NMAX + 2 \<Longrightarrow>
     for_m (traced obs body) m (e (NMAX + 1) (m - 1), tr)
       = Some (e (NMAX + 1) (NMAX + 1),
               tr @ concat (map (\<lambda>k. map (\<lambda>n. obs n k (e n k)) [k..NMAX + 1]) [m..NMAX + 1]))"
proof (induction "nat (NMAX + 2 - m)" arbitrary: m tr)
  case 0
  then have "m = NMAX + 2" by simp
  then show ?case by (simp add: for_m_done add.commute)
next
  case (Suc j)
  then have m: "m \<le> NMAX + 1" by simp
  have row: "for_n (traced obs body) m m (e (NMAX + 1) (m - 1), tr)
       = Some (e (NMAX + 1) m, tr @ map (\<lambda>n. obs n m (e n m)) [m..NMAX + 1])"
    using Suc.prems(1) m
    by (intro for_n_row[where e = "\<lambda>n. e n m"] diag vert) simp_all
  have j: "j = nat (NMAX + 2 - (m + 1))" using Suc.hyps(2) by simp
  have "for_m (traced obs body) (m + 1) (e (NMAX + 1) (m + 1 - 1), tr @ map (\<lambda>n. obs n m (e n m)) [m..NMAX + 1])
      = Some (e (NMAX + 1) (NMAX + 1),
              (tr @ map (\<lambda>n. obs n m (e n m)) [m..NMAX + 1])
                @ concat (map (\<lambda>k. map (\<lambda>n. obs n k (e n k)) [k..NMAX + 1]) [m + 1..NMAX + 1]))"
    using Suc.prems m by (intro Suc.hyps(1)[OF j]) simp_all
  then show ?case
    using m by (simp add: for_m_unfold[of m "traced obs body", OF m row] upto_rec1[of m "NMAX + 1"])
qed

lemma for_n_untraced:
  "for_n body m n st = map_option fst (for_n (traced obs body) m n (st, tr))"
proof (induction "nat (NMAX + 2 - n)" arbitrary: n st tr)
  case 0
  then show ?case by (simp add: for_n_done)
next
  case (Suc j)
  then have n: "n \<le> NMAX + 1" by simp
  show ?case
  proof (cases "body n m st")
    case None
    then show ?thesis by (simp add: for_n_fail[OF n] traced_None)
  next
    case (Some st')
    have j: "j = nat (NMAX + 2 - (n + 1))" using Suc.hyps(2) by simp
    show ?thesis
      using Suc.hyps(1)[OF j, of st' "tr @ [obs n m st']"]
      by (simp add: for_n_unfold[of n body m, OF n Some]
          for_n_unfold[of n "traced obs body" m, OF n traced_Some[of body n m, OF Some]])
  qed
qed

lemma for_m_untraced:
  "for_m body m st = map_option fst (for_m (traced obs body) m (st, tr))"
proof (induction "nat (NMAX + 2 - m)" arbitrary: m st tr)
  case 0
  then show ?case by (simp add: for_m_done)
next
  case (Suc j)
  then have m: "m \<le> NMAX + 1" by simp
  show ?case
  proof (cases "for_n (traced obs body) m m (st, tr)")
    case None
    then have "for_n body m m st = None"
      using for_n_untraced[of body m m st obs tr] by simp
    then show ?thesis using None by (simp add: for_m_fail[OF m])
  next
    case (Some r)
    obtain st' tr' where r: "r = (st', tr')" by (cases r)
    have u: "for_n body m m st = Some st'"
      using for_n_untraced[of body m m st obs tr] Some r by simp
    have j: "j = nat (NMAX + 2 - (m + 1))" using Suc.hyps(2) by simp
    show ?thesis
      using Suc.hyps(1)[OF j, of st' tr'] Some r
      by (simp add: for_m_unfold[of m body, OF m u] for_m_unfold[of m "traced obs body", OF m Some])
  qed
qed

lemma traversal_rows:
  "map (\<lambda>(n, m). F n m) traversal
     = concat (map (\<lambda>k. map (\<lambda>n. F n k) [k..NMAX + 1]) [0..NMAX + 1])"
  by (simp add: traversal_def map_concat comp_def)

lemma loops_traced:
  assumes wf: "wf_model WMM"
  shows "for_m (traced obs (GeoMag_body E t WMM a b f g)) 0
           (\<lparr>px = 0, py = 0, pz = 0, Vtop = v00, Wtop = 0, Vprev = 0, Wprev = 0,
             Vnm = v00, Wnm = 0\<rparr>, [])
         = Some (expect E t WMM a b f g v00 (NMAX + 1) (NMAX + 1),
                 map (\<lambda>(n, m). obs n m (expect E t WMM a b f g v00 n m)) traversal)"
proof -
  let ?B = "GeoMag_body E t WMM a b f g"
  let ?e = "expect E t WMM a b f g v00"
  let ?row = "\<lambda>k. map (\<lambda>n. obs n k (?e n k)) [k..NMAX + 1]"
  have N: "(0::int) \<le> NMAX + 1" by (simp add: NMAX_def)
  have row0: "for_n (traced obs ?B) 0 0
           (\<lparr>px = 0, py = 0, pz = 0, Vtop = v00, Wtop = 0, Vprev = 0, Wprev = 0,
             Vnm = v00, Wnm = 0\<rparr>, []) = Some (?e (NMAX + 1) 0, [] @ ?row 0)"
    by (rule for_n_row[where e = "\<lambda>n. ?e n 0"])
      (simp_all add: body_origin[OF wf] body_vertical[OF wf] N)
  have rest: "for_m (traced obs ?B) 1 (?e (NMAX + 1) (1 - 1), [] @ ?row 0)
      = Some (?e (NMAX + 1) (NMAX + 1), ([] @ ?row 0) @ concat (map ?row [1..NMAX + 1]))"
    using N by (intro for_m_chain[where ?m0.0 = 1 and m = 1 and e = ?e]
        body_diagonal[OF wf] body_vertical[OF wf]) simp_all
  show ?thesis
    using rest N
    by (simp add: for_m_unfold[of 0 "traced obs ?B", OF N row0] traversal_rows
        upto_rec1[of 0 "NMAX + 1"])
qed

lemma loops_final:
  assumes wf: "wf_model WMM"
  shows "for_m (GeoMag_body E t WMM a b f g) 0
           \<lparr>px = 0, py = 0, pz = 0, Vtop = v00, Wtop = 0, Vprev = 0, Wprev = 0,
             Vnm = v00, Wnm = 0\<rparr>
         = Some (expect E t WMM a b f g v00 (NMAX + 1) (NMAX + 1))"
  by (subst for_m_untraced[where obs = "\<lambda>n m st. ()" and tr = "[]"])
    (simp add: loops_traced[OF wf])

lemma GeoMag_init_shape:
  "\<exists>a b f g v00. GeoMag_init E p =
     ((a, b, f, g), \<lparr>px = 0, py = 0, pz = 0, Vtop = v00, Wtop = 0, Vprev = 0, Wprev = 0,
             Vnm = v00, Wnm = 0\<rparr>)"
  by (simp add: GeoMag_init_def Let_def)

lemma GeoMag_init_real:
  "GeoMag_init real_env p =
     ((spec_a p, spec_b p, spec_f p, spec_g p),
      \<lparr>px = 0, py = 0, pz = 0, Vtop = spec_R / sqrt (spec_rsq p), Wtop = 0, Vprev = 0, Wprev = 0,
        Vnm = spec_R / sqrt (spec_rsq p), Wnm = 0\<rparr>)"
  by (simp add: GeoMag_init_def Let_def real_env_def spec_a_def spec_b_def spec_f_def spec_g_def
      spec_R_def spec_rsq_def power2_eq_square)

lemma table_eq_spec:
  "V_table real_env (spec_a p) (spec_b p) (spec_f p) (spec_g p) (spec_R / sqrt (spec_rsq p)) n m
      = V_spec p n m \<and>
   W_table real_env (spec_a p) (spec_b p) (spec_f p) (spec_g p) (spec_R / sqrt (spec_rsq p)) n m
      = W_spec p n m"
proof (induction "nat (n + m)" arbitrary: n m rule: less_induct)
  case less
  show ?case
  proof (cases "m < 0 \<or> n < m")
    case True
    then show ?thesis
      by (simp add: V_table.simps[of _ _ _ _ _ _ n m] W_table.simps[of _ _ _ _ _ _ n m]
          V_spec.simps[of p n m] W_spec.simps[of p n m])
  next
    case out: False
    show ?thesis
    proof (cases "n = m")
      case True
      show ?thesis
      proof (cases "m = 0")
        case True
        with \<open>n = m\<close> show ?thesis
          by (simp add: V_table.simps[of _ _ _ _ _ _ 0 0] W_table.simps[of _ _ _ _ _ _ 0 0]
              V_spec.simps[of p 0 0] W_spec.simps[of p 0 0])
      next
        case False
        have "nat (m - 1 + (m - 1)) < nat (n + m)" using out False \<open>n = m\<close> by simp
        from less[OF this] out False \<open>n = m\<close> show ?thesis
          by (simp add: V_table.simps[of _ _ _ _ _ _ m m] W_table.simps[of _ _ _ _ _ _ m m]
              V_spec.simps[of p m m] W_spec.simps[of p m m] real_env_def)
      qed
    next
      case False
      have 1: "nat (n - 1 + m) < nat (n + m)" and 2: "nat (n - 2 + m) < nat (n + m)"
        using out False by simp_all
      from less[OF 1] less[OF 2] out False show ?thesis
        by (simp add: V_table.simps[of _ _ _ _ _ _ n m] W_table.simps[of _ _ _ _ _ _ n m]
            V_spec.simps[of p n m] W_spec.simps[of p n m] real_env_def)
    qed
  qed
qed

lemma set_traversal: "(n, m) \<in> set traversal \<longleftrightarrow> 0 \<le> m \<and> m \<le> n \<and> n \<le> NMAX + 1"
  by (force simp: traversal_def)

lemma length_traversal: "int (length traversal) = (NMAX + 2) * (NMAX + 3) div 2"
  by (simp add: traversal_def NMAX_def upto_rec1)

lemma wf_dipole_model: "wf_model dipole_model"
  by (simp add: wf_model_def dipole_model_def NUMCOF_eq)

lemma GeoMag_run:
  assumes wf: "wf_model WMM"
  shows "GeoMag E t p WMM =
     Some \<lparr>x = - grad_x E t p WMM * lit_nano E, y = - grad_y E t p WMM * lit_nano E,
           z = - grad_z E t p WMM * lit_nano E\<rparr>"
proof -
  obtain a b f g v00 where i: "GeoMag_init E p =
     ((a, b, f, g), \<lparr>px = 0, py = 0, pz = 0, Vtop = v00, Wtop = 0, Vprev = 0, Wprev = 0,
             Vnm = v00, Wnm = 0\<rparr>)"
    using GeoMag_init_shape by blast
  show ?thesis
    by (simp add: GeoMag_def i loops_final[OF wf] grad_x_def grad_y_def grad_z_def V_at_def W_at_def
        expect_def upto_pair_all)
qed

lemma GeoMag_trace_run:
  assumes wf: "wf_model WMM"
  shows "GeoMag_trace obs E t p WMM =
     (case GeoMag_init E p of ((a, b, f, g), st0) \<Rightarrow>
        Some (map (\<lambda>(n, m). obs n m (expect E t WMM a b f g (Vtop st0) n m)) traversal))"
proof -
  obtain a b f g v00 where i: "GeoMag_init E p =
     ((a, b, f, g), \<lparr>px = 0, py = 0, pz = 0, Vtop = v00, Wtop = 0, Vprev = 0, Wprev = 0,
             Vnm = v00, Wnm = 0\<rparr>)"
    using GeoMag_init_shape by blast
  show ?thesis
    by (simp add: GeoMag_trace_def i loops_traced[OF wf])
qed

lemma GeoMag_of_traced_run:
  "GeoMag E t p WMM =
     (case GeoMag_init E p of ((a, b, f, g), st0) \<Rightarrow>
        map_option (\<lambda>(st, tr). \<lparr>x = - px st * lit_nano E, y = - py st * lit_nano E,
                                z = - pz st * lit_nano E\<rparr>)
          (for_m (traced obs (GeoMag_body E t WMM a b f g)) 0 (st0, [])))"
proof -
  obtain a b f g st0 where i: "GeoMag_init E p = ((a, b, f, g), st0)"
    by (metis prod.exhaust)
  have u: "for_m (GeoMag_body E t WMM a b f g) 0 st0
      = map_option fst (for_m (traced obs (GeoMag_body E t WMM a b f g)) 0 (st0, []))"
    by (rule for_m_untraced)
  show ?thesis
    by (cases "for_m (traced obs (GeoMag_body E t WMM a b f g)) 0 (st0, [])")
      (auto simp: GeoMag_def i u)
qed

lemma guarded_lookups_in_domain:
  assumes "0 \<le> m" "m \<le> n" "n \<le> NMAX + 1"
  shows "(raise_guard n m \<longrightarrow> in_domain (n - 1) (m + 1)) \<and>
         (lower_guard n m \<longrightarrow> in_domain (n - 1) (m - 1)) \<and>
         (order1_guard n m \<longrightarrow> in_domain (n - 1) 0) \<and>
         (vertical_guard n m \<longrightarrow> in_domain (n - 1) m)"
  using assms
  by (simp add: raise_guard_def lower_guard_def order1_guard_def vertical_guard_def in_domain_def)

section \<open>Facts about stores that are compared\<close>

lemma terms_cong:
  assumes v: "\<And>n' m'. in_domain n' m' \<Longrightarrow> 1 \<le> n' \<Longrightarrow>
      valueC WMM n' m' t = valueC WMM' n' m' t' \<and> valueS WMM n' m' t = valueS WMM' n' m' t'"
    and r: "0 \<le> m" "m \<le> n" "n \<le> NMAX + 1"
  shows "px_terms E t WMM n m v w = px_terms E t' WMM' n m v w \<and>
         py_terms E t WMM n m v w = py_terms E t' WMM' n m v w \<and>
         pz_terms E t WMM n m v w = pz_terms E t' WMM' n m v w"
proof -
  have 1: "raise_guard n m \<Longrightarrow> in_domain (n - 1) (m + 1) \<and> 1 \<le> n - 1"
    and 2: "lower_guard n m \<Longrightarrow> in_domain (n - 1) (m - 1) \<and> 1 \<le> n - 1"
    and 3: "order1_guard n m \<Longrightarrow> in_domain (n - 1) 0 \<and> 1 \<le> n - 1"
    and 4: "vertical_guard n m \<Longrightarrow> in_domain (n - 1) m \<and> 1 \<le> n - 1"
    using r
    by (simp_all add: raise_guard_def lower_guard_def order1_guard_def vertical_guard_def
        in_domain_def)
  show ?thesis
    using v[of "n - 1" "m + 1"] v[of "n - 1" "m - 1"] v[of "n - 1" 0] v[of "n - 1" m] 1 2 3 4
    by (simp add: px_terms_def py_terms_def pz_terms_def)
qed

lemma grad_cong:
  assumes v: "\<And>n' m'. in_domain n' m' \<Longrightarrow> 1 \<le> n' \<Longrightarrow>
      valueC WMM n' m' t = valueC WMM' n' m' t' \<and> valueS WMM n' m' t = valueS WMM' n' m' t'"
  shows "grad_x E t p WMM = grad_x E t' p WMM' \<and> grad_y E t p WMM = grad_y E t' p WMM' \<and>
         grad_z E t p WMM = grad_z E t' p WMM'"
proof -
  have X: "map (\<lambda>(n, m). px_terms E t WMM n m (V_at E p n m) (W_at E p n m)) traversal
      = map (\<lambda>(n, m). px_terms E t' WMM' n m (V_at E p n m) (W_at E p n m)) traversal"
    and Y: "map (\<lambda>(n, m). py_terms E t WMM n m (V_at E p n m) (W_at E p n m)) traversal
      = map (\<lambda>(n, m). py_terms E t' WMM' n m (V_at E p n m) (W_at E p n m)) traversal"
    and Z: "map (\<lambda>(n, m). pz_terms E t WMM n m (V_at E p n m) (W_at E p n m)) traversal
      = map (\<lambda>(n, m). pz_terms E t' WMM' n m (V_at E p n m) (W_at E p n m)) traversal"
    using terms_cong[OF v] by (auto simp: set_traversal)
  show ?thesis
    unfolding grad_x_def grad_y_def grad_z_def X Y Z by simp
qed


lemmas xfloat_ops = zero_xfloat_def one_xfloat_def plus_xfloat_def uminus_xfloat_def
  minus_xfloat_def times_xfloat_def divide_xfloat_def inverse_xfloat_def




lemma wf_ieee_dipole: "wf_model ieee_dipole"
  by (simp add: wf_model_def ieee_dipole_def NUMCOF_eq)





lemma rule_counts:
  "length (px_terms E t WMM n m v w) + length (pz_terms E t WMM n m v w) = guards_holding n m"
  "length (py_terms E t WMM n m v w) = length (px_terms E t WMM n m v w)"
  by (simp_all add: px_terms_def py_terms_def pz_terms_def guards_holding_def)

lemma value_off_origin:
  assumes a: "agree_off_origin WMM WMM'" and d: "in_domain n m" "1 \<le> n"
  shows "valueC WMM n m t = valueC WMM' n m t \<and> valueS WMM n m t = valueS WMM' n m t"
proof -
  have "0 < index n m" "index n m < NUMCOF"
    using index_positive[of m n] index_bounds[of m n] d by (simp_all add: in_domain_def)
  then have k: "0 < nat (index n m) \<and> int (nat (index n m)) < NUMCOF" by simp
  have e: "epoch WMM = epoch WMM'"
    using a by (simp add: agree_off_origin_def)
  have "\<forall>i. 0 < i \<and> int i < NUMCOF \<longrightarrow>
        Main_Field_Coeff_C WMM ! i = Main_Field_Coeff_C WMM' ! i \<and>
        Main_Field_Coeff_S WMM ! i = Main_Field_Coeff_S WMM' ! i \<and>
        Secular_Var_Coeff_C WMM ! i = Secular_Var_Coeff_C WMM' ! i \<and>
        Secular_Var_Coeff_S WMM ! i = Secular_Var_Coeff_S WMM' ! i"
    using a by (simp add: agree_off_origin_def)
  then have "Main_Field_Coeff_C WMM ! nat (index n m) = Main_Field_Coeff_C WMM' ! nat (index n m) \<and>
        Main_Field_Coeff_S WMM ! nat (index n m) = Main_Field_Coeff_S WMM' ! nat (index n m) \<and>
        Secular_Var_Coeff_C WMM ! nat (index n m) = Secular_Var_Coeff_C WMM' ! nat (index n m) \<and>
        Secular_Var_Coeff_S WMM ! nat (index n m) = Secular_Var_Coeff_S WMM' ! nat (index n m)"
    using k by blast
  then show ?thesis
    by (simp add: valueC_def valueS_def e)
qed

section \<open>The claims\<close>

text \<open>
  Claim C1. For every time, every position and every store (and every float semantics
  \<open>E\<close>), \<open>GeoMag\<close> returns the vector \<open>(-px * 1e-9, -py * 1e-9, -pz * 1e-9)\<close>, where
  \<open>px\<close>, \<open>py\<close> and \<open>pz\<close> are the sums \<open>grad_x\<close>, \<open>grad_y\<close> and \<open>grad_z\<close>, taken in the
  order of the traversal, of the terms of the four rules: the raise-order rule under
  \<open>m < NMAX\<close> and \<open>n \<ge> m + 2\<close> with weight \<open>0.5 * (n - m) * (n - m - 1)\<close> on \<open>px\<close> and \<open>py\<close>,
  the lower-order rule under \<open>n \<ge> 2\<close> and \<open>m \<ge> 2\<close> with weight \<open>0.5\<close> on \<open>px\<close> and \<open>py\<close>, the
  order-1 rule under \<open>m = 1\<close> and \<open>n \<ge> 2\<close> with the cosine coefficient of order \<open>0\<close>, and
  the vertical rule under \<open>n \<ge> 2\<close> and \<open>n > m\<close> with weight \<open>n - m\<close> on \<open>pz\<close>, each with the
  time-corrected coefficients of degree \<open>n - 1\<close> and the table values \<open>V(n,m)\<close>, \<open>W(n,m)\<close>.
\<close>

theorem GeoMag_value:
  assumes wf: "wf_model WMM"
  shows "GeoMag E t p WMM =
     Some \<lparr>x = - grad_x E t p WMM * lit_nano E, y = - grad_y E t p WMM * lit_nano E,
           z = - grad_z E t p WMM * lit_nano E\<rparr>"
  using wf by (rule GeoMag_run)

theorem GeoMag_value_witness:
  "wf_model dipole_model \<and>
   GeoMag real_env 2020 north_pole dipole_model =
     Some \<lparr>x = - grad_x real_env 2020 north_pole dipole_model * (1 / 10 ^ 9),
           y = - grad_y real_env 2020 north_pole dipole_model * (1 / 10 ^ 9),
           z = - grad_z real_env 2020 north_pole dipole_model * (1 / 10 ^ 9)\<rparr>"
  using GeoMag_value[OF wf_dipole_model, of real_env 2020 north_pole]
  by (simp add: wf_dipole_model real_env_def)

text \<open>
  Claim C4. For every pair \<open>(n, m)\<close> with \<open>0 \<le> m \<le> n \<le> NMAX\<close>, where \<open>NMAX = 12\<close>, the index
  \<open>m * (2 * NMAX - m + 1) / 2 + n\<close> lies in \<open>[0, (NMAX + 1) * (NMAX + 2) / 2)\<close>; two pairs of
  the domain with the same index are the same pair; and every index of that range is
  the index of a pair of the domain, so no slot is wasted.
\<close>

theorem index_bijection:
  "(\<forall>n m. in_domain n m \<longrightarrow> 0 \<le> index n m \<and> index n m < NUMCOF) \<and>
   (\<forall>n m n' m'. in_domain n m \<and> in_domain n' m' \<and> index n m = index n' m' \<longrightarrow> n = n' \<and> m = m') \<and>
   (\<forall>i. 0 \<le> i \<and> i < NUMCOF \<longrightarrow> (\<exists>n m. in_domain n m \<and> index n m = i)) \<and>
   NMAX = 12 \<and> NUMCOF = (NMAX + 1) * (NMAX + 2) div 2"
proof (intro conjI allI impI)
  fix n m assume "in_domain n m"
  then show "0 \<le> index n m" "index n m < NUMCOF"
    using index_bounds[of m n] by (simp_all add: in_domain_def)
next
  fix n m n' m' assume "in_domain n m \<and> in_domain n' m' \<and> index n m = index n' m'"
  then show "n = n'" "m = m'"
    using index_inj[of m n m' n'] by (simp_all add: in_domain_def)
next
  fix i assume "0 \<le> i \<and> i < NUMCOF"
  then show "\<exists>n m. in_domain n m \<and> index n m = i"
    using index_onto[of i] by (simp add: in_domain_def)
next
  show "NMAX = 12" by (simp add: NMAX_def)
  show "NUMCOF = (NMAX + 1) * (NMAX + 2) div 2" by (simp add: NUMCOF_eq NMAX_def)
qed

theorem index_bijection_witness:
  "in_domain 12 12 \<and> in_domain 1 1 \<and> index 12 12 = 90 \<and> index 1 1 = 13 \<and> 0 \<le> index 12 12
     \<and> index 12 12 < NUMCOF \<and> index 12 12 \<noteq> index 1 1
     \<and> (\<exists>n m. in_domain n m \<and> index n m = 90)"
  using index_bijection[THEN conjunct1, rule_format, of 12 12]
    index_bijection[THEN conjunct2, THEN conjunct1, rule_format, of 12 12 1 1]
    index_bijection[THEN conjunct2, THEN conjunct2, THEN conjunct1, rule_format, of 90]
  by (simp add: in_domain_def NMAX_def index_def NUMCOF_eq sdiv_nonneg)

text \<open>
  Claim C5. For every degree \<open>n\<close> and order \<open>m\<close> with \<open>0 \<le> m \<le> n \<le> NMAX\<close> and every
  decimal year \<open>t\<close>, the lookups \<open>C\<close> and \<open>S\<close> of a store succeed and return the main-field
  entry at \<open>index n m\<close> plus \<open>t - epoch\<close> times the secular-variation entry at
  \<open>index n m\<close>, from the cosine tables and from the sine tables respectively.
\<close>

theorem lookup_value:
  assumes "wf_model WMM" "0 \<le> m" "m \<le> n" "n \<le> NMAX"
  shows "C WMM n m t = Some (Main_Field_Coeff_C WMM ! nat (index n m)
            + (t - epoch WMM) * Secular_Var_Coeff_C WMM ! nat (index n m)) \<and>
         S WMM n m t = Some (Main_Field_Coeff_S WMM ! nat (index n m)
            + (t - epoch WMM) * Secular_Var_Coeff_S WMM ! nat (index n m))"
  using C_in_domain[OF assms] S_in_domain[OF assms] by (simp add: valueC_def valueS_def)

theorem lookup_value_witness:
  "wf_model dipole_model \<and> (0::int) \<le> 1 \<and> (1::int) \<le> 1 \<and> 1 \<le> NMAX \<and>
   C dipole_model 1 1 2021 = Some (- 1443) \<and> S dipole_model 1 1 2021 = Some (46278 / 10)"
  using lookup_value[of dipole_model 1 1 2021]
  by (simp add: wf_dipole_model) (simp add: dipole_model_def NMAX_def index_def sdiv_nonneg)

text \<open>
  Claim C2. For every input, every coefficient lookup of the accumulation is in bounds:
  the run of \<open>GeoMag\<close> on a store never reaches a failed read; at every visited pair
  each guard puts the pair that its rule looks up, \<open>(n - 1, m + 1)\<close>, \<open>(n - 1, m - 1)\<close>,
  \<open>(n - 1, 0)\<close> or \<open>(n - 1, m)\<close>, inside the packing domain \<open>0 \<le> order \<le> degree \<le> NMAX\<close>;
  and in that domain the index lies in \<open>[0, NUMCOF)\<close> and both lookups succeed.
\<close>

theorem lookups_in_bounds:
  assumes "wf_model WMM"
  shows "(\<exists>v. GeoMag E t p WMM = Some v) \<and>
    (\<forall>(n, m) \<in> set traversal.
        (raise_guard n m \<longrightarrow> in_domain (n - 1) (m + 1)) \<and>
        (lower_guard n m \<longrightarrow> in_domain (n - 1) (m - 1)) \<and>
        (order1_guard n m \<longrightarrow> in_domain (n - 1) 0) \<and>
        (vertical_guard n m \<longrightarrow> in_domain (n - 1) m)) \<and>
    (\<forall>n m. in_domain n m \<longrightarrow>
        0 \<le> index n m \<and> index n m < NUMCOF \<and> C WMM n m t \<noteq> None \<and> S WMM n m t \<noteq> None)"
proof (intro conjI)
  show "\<exists>v. GeoMag E t p WMM = Some v"
    using GeoMag_run[OF assms] by blast
  show "\<forall>(n, m) \<in> set traversal.
        (raise_guard n m \<longrightarrow> in_domain (n - 1) (m + 1)) \<and>
        (lower_guard n m \<longrightarrow> in_domain (n - 1) (m - 1)) \<and>
        (order1_guard n m \<longrightarrow> in_domain (n - 1) 0) \<and>
        (vertical_guard n m \<longrightarrow> in_domain (n - 1) m)"
    using guarded_lookups_in_domain by (auto simp: set_traversal)
  show "\<forall>n m. in_domain n m \<longrightarrow>
        0 \<le> index n m \<and> index n m < NUMCOF \<and> C WMM n m t \<noteq> None \<and> S WMM n m t \<noteq> None"
    using index_bounds C_in_domain[OF assms] S_in_domain[OF assms]
    by (simp add: in_domain_def)
qed

theorem lookups_in_bounds_witness:
  "wf_model dipole_model \<and> (\<exists>v. GeoMag real_env 2021 north_pole dipole_model = Some v) \<and>
   (13, 11) \<in> set traversal \<and> raise_guard 13 11 \<and> lower_guard 13 11 \<and> vertical_guard 13 11 \<and>
   in_domain 12 12 \<and> in_domain 12 10 \<and> in_domain 12 11 \<and>
   (3, 1) \<in> set traversal \<and> order1_guard 3 1 \<and> in_domain 2 0 \<and>
   index 12 12 = 90 \<and> index 12 12 < NUMCOF \<and> C dipole_model 12 12 2021 \<noteq> None"
  using lookups_in_bounds[OF wf_dipole_model, of real_env 2021 north_pole]
  by (simp add: wf_dipole_model set_traversal raise_guard_def lower_guard_def order1_guard_def
      vertical_guard_def in_domain_def NMAX_def index_def sdiv_nonneg NUMCOF_eq)

text \<open>
  Claim C3. For every arithmetic, the loop of \<open>GeoMag\<close>, which keeps three scalars per
  family and updates them in place, holds in \<open>Vnm\<close> and \<open>Wnm\<close> after the iteration at each
  visited pair \<open>(n, m)\<close> exactly the entries \<open>V(n,m)\<close> and \<open>W(n,m)\<close> of the full table of the
  same recurrence: the trace of \<open>(n, m, Vnm, Wnm)\<close> over the run is the table \<open>V_at\<close>,
  \<open>W_at\<close> read along the traversal. The table applies the operations as the code does: the
  division by \<open>n - m\<close> is a multiplication by \<open>1 / (n - m)\<close>, and \<open>a\<close>, \<open>b\<close>, \<open>f\<close>, \<open>g\<close> are
  products with \<open>R / r\<^sup>2\<close>. Over the real numbers, at a position with \<open>r\<^sup>2 > 0\<close>, that table
  is the recurrence as the specification writes it, \<open>V_spec\<close> and \<open>W_spec\<close>.
\<close>

theorem streaming_equals_full_table:
  assumes "wf_model WMM"
  shows "GeoMag_trace (\<lambda>n m st. (n, m, Vnm st, Wnm st)) E t p WMM
           = Some (map (\<lambda>(n, m). (n, m, V_at E p n m, W_at E p n m)) traversal) \<and>
         (0 < spec_rsq q \<longrightarrow>
            (\<forall>n m. V_at real_env q n m = V_spec q n m \<and> W_at real_env q n m = W_spec q n m))"
proof
  obtain a b f g st0 where i: "GeoMag_init E p = ((a, b, f, g), st0)"
    by (metis prod.exhaust)
  show "GeoMag_trace (\<lambda>n m st. (n, m, Vnm st, Wnm st)) E t p WMM
           = Some (map (\<lambda>(n, m). (n, m, V_at E p n m, W_at E p n m)) traversal)"
    by (simp add: GeoMag_trace_run[OF assms] i expect_def V_at_def W_at_def)
  show "0 < spec_rsq q \<longrightarrow>
            (\<forall>n m. V_at real_env q n m = V_spec q n m \<and> W_at real_env q n m = W_spec q n m)"
    by (simp add: V_at_def W_at_def GeoMag_init_real table_eq_spec)
qed

theorem streaming_equals_full_table_witness:
  "wf_model ieee_dipole \<and>
   GeoMag_trace (\<lambda>n m st. (n, m, Vnm st, Wnm st)) ieee_env (Fin 2021) ieee_origin ieee_dipole
     = Some (map (\<lambda>(n, m). (n, m, V_at ieee_env ieee_origin n m, W_at ieee_env ieee_origin n m))
         traversal) \<and>
   V_at ieee_env ieee_origin 0 0 = PInf \<and>
   0 < spec_rsq north_pole \<and>
   V_at real_env north_pole 2 1 = V_spec north_pole 2 1 \<and>
   W_at real_env north_pole 2 1 = W_spec north_pole 2 1"
proof -
  note T = streaming_equals_full_table[OF wf_ieee_dipole,
      of ieee_env "Fin 2021" ieee_origin north_pole]
  have r: "0 < spec_rsq north_pole"
    by (simp add: spec_rsq_def north_pole_def)
  have o: "V_at ieee_env ieee_origin 0 0 = PInf"
    by (simp add: V_at_def GeoMag_init_def Let_def ieee_env_def ieee_origin_def xfloat_ops
        V_table.simps[of _ _ _ _ _ _ 0 0])
  show ?thesis
    using T[THEN conjunct1] T[THEN conjunct2, rule_format, OF r, of 2 1] wf_ieee_dipole r o
    by blast
qed

text \<open>
  Claim C6, as the specification states it, fails: the four guards are not disjoint. At
  the visited pair \<open>(3, 1)\<close> the raise-order, the order-1 and the vertical guard hold
  together.
\<close>

theorem guards_overlap:
  "(3, 1) \<in> set traversal \<and> raise_guard 3 1 \<and> order1_guard 3 1 \<and> vertical_guard 3 1 \<and>
   guards_holding 3 1 = 3"
  by (simp add: set_traversal guards_holding_def raise_guard_def lower_guard_def order1_guard_def
      vertical_guard_def NMAX_def)

text \<open>
  Claim C6, amended. The four rules are four independent \<open>if\<close> statements, not exclusive
  cases. On every store, at every visited pair, \<open>accumulate\<close> adds to \<open>px\<close> and to \<open>py\<close>, in
  this order, the term of the raise-order rule if its guard holds, the term of the
  lower-order rule if its guard holds and the term of the order-1 rule if its guard
  holds, and adds to \<open>pz\<close> the term of the vertical rule if its guard holds: one term for
  each guard that holds. The lower-order guard and the order-1 guard never hold together;
  every other two guards hold together at a visited pair, the raise-order, lower-order
  and vertical guard at \<open>(4, 2)\<close>, the raise-order, order-1 and vertical guard at \<open>(3, 1)\<close>;
  the raise-order guard and the order-1 guard each imply the vertical guard; at most
  three guards hold at a pair.
\<close>

theorem guards_independent:
  assumes "wf_model WMM"
  shows "(\<forall>(n, m) \<in> set traversal.
            (\<forall>st. accumulate E t WMM n m st =
               Some (st\<lparr>px := foldl (+) (px st) (px_terms E t WMM n m (Vnm st) (Wnm st)),
                        py := foldl (+) (py st) (py_terms E t WMM n m (Vnm st) (Wnm st)),
                        pz := foldl (+) (pz st) (pz_terms E t WMM n m (Vnm st) (Wnm st))\<rparr>)) \<and>
            length (px_terms E t WMM n m v w) + length (pz_terms E t WMM n m v w)
              = guards_holding n m \<and>
            length (py_terms E t WMM n m v w) = length (px_terms E t WMM n m v w) \<and>
            \<not> (lower_guard n m \<and> order1_guard n m) \<and>
            (raise_guard n m \<longrightarrow> vertical_guard n m) \<and>
            (order1_guard n m \<longrightarrow> vertical_guard n m) \<and>
            guards_holding n m \<le> 3) \<and>
         (4, 2) \<in> set traversal \<and> raise_guard 4 2 \<and> lower_guard 4 2 \<and> vertical_guard 4 2 \<and>
         (3, 1) \<in> set traversal \<and> raise_guard 3 1 \<and> order1_guard 3 1 \<and> vertical_guard 3 1"
proof (intro conjI)
  show "\<forall>(n, m) \<in> set traversal.
            (\<forall>st. accumulate E t WMM n m st =
               Some (st\<lparr>px := foldl (+) (px st) (px_terms E t WMM n m (Vnm st) (Wnm st)),
                        py := foldl (+) (py st) (py_terms E t WMM n m (Vnm st) (Wnm st)),
                        pz := foldl (+) (pz st) (pz_terms E t WMM n m (Vnm st) (Wnm st))\<rparr>)) \<and>
            length (px_terms E t WMM n m v w) + length (pz_terms E t WMM n m v w)
              = guards_holding n m \<and>
            length (py_terms E t WMM n m v w) = length (px_terms E t WMM n m v w) \<and>
            \<not> (lower_guard n m \<and> order1_guard n m) \<and>
            (raise_guard n m \<longrightarrow> vertical_guard n m) \<and>
            (order1_guard n m \<longrightarrow> vertical_guard n m) \<and>
            guards_holding n m \<le> 3"
  proof (intro ballI, clarify, intro conjI allI)
    fix n m st assume v: "(n, m) \<in> set traversal"
    then have r: "0 \<le> m" "m \<le> n" "n \<le> NMAX + 1"
      by (simp_all add: set_traversal)
    show "accumulate E t WMM n m st =
               Some (st\<lparr>px := foldl (+) (px st) (px_terms E t WMM n m (Vnm st) (Wnm st)),
                        py := foldl (+) (py st) (py_terms E t WMM n m (Vnm st) (Wnm st)),
                        pz := foldl (+) (pz st) (pz_terms E t WMM n m (Vnm st) (Wnm st))\<rparr>)"
      by (rule accumulate_eq[OF assms r])
    show "length (px_terms E t WMM n m v w) + length (pz_terms E t WMM n m v w)
              = guards_holding n m"
      "length (py_terms E t WMM n m v w) = length (px_terms E t WMM n m v w)"
      by (rule rule_counts)+
    show "\<not> (lower_guard n m \<and> order1_guard n m)"
      by (simp add: lower_guard_def order1_guard_def)
    show "raise_guard n m \<longrightarrow> vertical_guard n m" "order1_guard n m \<longrightarrow> vertical_guard n m"
      using r by (simp_all add: raise_guard_def order1_guard_def vertical_guard_def)
    show "guards_holding n m \<le> 3"
      by (simp add: guards_holding_def lower_guard_def order1_guard_def)
  qed
qed (simp_all add: set_traversal raise_guard_def lower_guard_def order1_guard_def
    vertical_guard_def NMAX_def)

theorem guards_independent_witness:
  "wf_model dipole_model \<and> (3, 1) \<in> set traversal \<and>
   accumulate real_env 2021 dipole_model 3 1
     \<lparr>px = 0, py = 0, pz = 0, Vtop = 1, Wtop = 0, Vprev = 0, Wprev = 0, Vnm = 1, Wnm = 0\<rparr>
   = Some \<lparr>px = foldl (+) 0 (px_terms real_env 2021 dipole_model 3 1 1 0),
           py = foldl (+) 0 (py_terms real_env 2021 dipole_model 3 1 1 0),
           pz = foldl (+) 0 (pz_terms real_env 2021 dipole_model 3 1 1 0),
           Vtop = 1, Wtop = 0, Vprev = 0, Wprev = 0, Vnm = 1, Wnm = 0\<rparr> \<and>
   length (px_terms real_env 2021 dipole_model 3 1 1 0) = 2 \<and>
   length (pz_terms real_env 2021 dipole_model 3 1 1 0) = 1 \<and>
   guards_holding 3 1 = 3 \<and>
   \<not> (lower_guard 3 1 \<and> order1_guard 3 1) \<and> raise_guard 3 1 \<and> order1_guard 3 1 \<and>
   vertical_guard 3 1"
proof -
  have v: "(3, 1) \<in> set traversal"
    by (simp add: set_traversal NMAX_def)
  note T = guards_independent[OF wf_dipole_model, of real_env 2021 1 0, THEN conjunct1,
      THEN bspec, OF v]
  have g: "raise_guard 3 1" "order1_guard 3 1" "\<not> lower_guard 3 1" "vertical_guard 3 1"
    by (simp_all add: raise_guard_def order1_guard_def lower_guard_def vertical_guard_def NMAX_def)
  have l: "length (px_terms real_env 2021 dipole_model 3 1 1 0) = 2"
    "length (pz_terms real_env 2021 dipole_model 3 1 1 0) = 1"
    using g by (simp_all add: px_terms_def pz_terms_def)
  have h: "guards_holding 3 1 = 3"
    using T l by simp
  have a: "accumulate real_env 2021 dipole_model 3 1
     \<lparr>px = 0, py = 0, pz = 0, Vtop = 1, Wtop = 0, Vprev = 0, Wprev = 0, Vnm = 1, Wnm = 0\<rparr>
   = Some \<lparr>px = foldl (+) 0 (px_terms real_env 2021 dipole_model 3 1 1 0),
           py = foldl (+) 0 (py_terms real_env 2021 dipole_model 3 1 1 0),
           pz = foldl (+) 0 (pz_terms real_env 2021 dipole_model 3 1 1 0),
           Vtop = 1, Wtop = 0, Vprev = 0, Wprev = 0, Vnm = 1, Wnm = 0\<rparr>"
    using T by simp
  show ?thesis
    using wf_dipole_model v a l h g by blast
qed

text \<open>
  Claim C9. \<open>GeoMag\<close> always terminates (\<open>for_n\<close> and \<open>for_m\<close> are total functions), and on
  every input the loop body is executed at exactly the pairs of the traversal, in that
  order: \<open>(NMAX + 2) * (NMAX + 3) / 2 = 105\<close> iterations, whatever the position, the time
  and the coefficients are.
\<close>

theorem fixed_iteration_count:
  assumes "wf_model WMM"
  shows "GeoMag_trace (\<lambda>n m st. (n, m)) E t p WMM = Some traversal \<and>
         int (length traversal) = (NMAX + 2) * (NMAX + 3) div 2"
proof -
  obtain a b f g st0 where i: "GeoMag_init E p = ((a, b, f, g), st0)"
    by (metis prod.exhaust)
  have "map (\<lambda>(n, m). (n, m)) traversal = traversal" by (induction traversal) auto
  then show ?thesis
    by (simp add: GeoMag_trace_run[OF assms] i length_traversal)
qed

theorem fixed_iteration_count_witness:
  "wf_model dipole_model \<and>
   GeoMag_trace (\<lambda>n m st. (n, m)) real_env 2021 north_pole dipole_model = Some traversal \<and>
   length traversal = 105"
  using fixed_iteration_count[OF wf_dipole_model, of real_env 2021 north_pole]
  by (simp add: wf_dipole_model NMAX_def)




text \<open>
  Claim C10. The result of \<open>GeoMag\<close> does not depend on the entries at index \<open>0\<close>, the slot
  of the pair \<open>(0, 0)\<close>: for every time and position, two stores with the same epoch whose
  four tables agree at every index but \<open>0\<close> give the same result.
\<close>

theorem origin_entries_unused:
  assumes "wf_model WMM" "wf_model WMM'" "agree_off_origin WMM WMM'"
  shows "GeoMag E t p WMM = GeoMag E t p WMM'"
proof -
  have "grad_x E t p WMM = grad_x E t p WMM' \<and> grad_y E t p WMM = grad_y E t p WMM' \<and>
        grad_z E t p WMM = grad_z E t p WMM'"
    by (rule grad_cong) (rule value_off_origin[OF assms(3)])
  then show ?thesis
    by (simp add: GeoMag_run[OF assms(1)] GeoMag_run[OF assms(2)])
qed

theorem origin_entries_unused_witness:
  "wf_model dipole_model \<and>
   wf_model (dipole_model\<lparr>Main_Field_Coeff_C := (Main_Field_Coeff_C dipole_model)[0 := 1000]\<rparr>) \<and>
   agree_off_origin dipole_model
     (dipole_model\<lparr>Main_Field_Coeff_C := (Main_Field_Coeff_C dipole_model)[0 := 1000]\<rparr>) \<and>
   Main_Field_Coeff_C dipole_model ! 0
     \<noteq> Main_Field_Coeff_C
         (dipole_model\<lparr>Main_Field_Coeff_C := (Main_Field_Coeff_C dipole_model)[0 := 1000]\<rparr>) ! 0 \<and>
   GeoMag real_env 2021 north_pole dipole_model
     = GeoMag real_env 2021 north_pole
         (dipole_model\<lparr>Main_Field_Coeff_C := (Main_Field_Coeff_C dipole_model)[0 := 1000]\<rparr>)"
proof -
  let ?W = "dipole_model\<lparr>Main_Field_Coeff_C := (Main_Field_Coeff_C dipole_model)[0 := 1000]\<rparr>"
  have w: "wf_model ?W"
    using wf_dipole_model by (simp add: wf_model_def)
  have a: "agree_off_origin dipole_model ?W"
    by (simp add: agree_off_origin_def)
  have d: "Main_Field_Coeff_C dipole_model ! 0 \<noteq> Main_Field_Coeff_C ?W ! 0"
    by (simp add: dipole_model_def)
  show ?thesis
    using origin_entries_unused[OF wf_dipole_model w a, of real_env 2021 north_pole] w a d
    by (simp add: wf_dipole_model)
qed

end
